theory Spec2Isabelle
  imports Complex_Main
begin

section \<open>Configuration shared by both programs\<close>

text \<open>
  \<^verbatim>\<open>harvesting.py\<close> (lines 6-12) and \<^verbatim>\<open>realtime_simulation.py\<close> (lines 8-12) start with
  the same block of constants, character for character, so the block is embedded once.
  A one-dimensional numpy array is a list of numbers, a two-dimensional one a list of rows.
  The programs compute in 64-bit floating point; the embedding computes in the reals, as
  the specification words the model ("real-valued population counts"), so rounding is not
  part of what is proved below.
\<close>

definition INITIAL_POP :: "real list" where
  "INITIAL_POP = [1000.0, 500.0, 200.0]"

definition F_J :: real where "F_J = 0.0"
definition F_S :: real where "F_S = 0.8"
definition F_A :: real where "F_A = 2.5"

definition S_J_to_S :: real where "S_J_to_S = 0.5"
definition S_S_to_A :: real where "S_S_to_A = 0.7"
definition S_A_surv :: real where "S_A_surv = 0.8"

definition YEARS :: nat where "YEARS = 50"

text \<open>\<^verbatim>\<open>np.zeros(n)\<close>, \<^verbatim>\<open>np.zeros((r, c))\<close> and \<^verbatim>\<open>np.sum\<close> of a one-dimensional array.\<close>

definition np_zeros :: "nat \<Rightarrow> real list" where
  "np_zeros n = replicate n 0"

definition np_zeros2 :: "nat \<Rightarrow> nat \<Rightarrow> real list list" where
  "np_zeros2 r c = replicate r (np_zeros c)"

definition np_sum :: "real list \<Rightarrow> real" where
  "np_sum xs = sum_list xs"

section \<open>The batch projection of \<^verbatim>\<open>harvesting.py\<close>\<close>

text \<open>
  Lines 21-35 of \<^verbatim>\<open>run_simulation\<close>: the survivors of one year. The mode is the string the
  radio button delivers. The \<^verbatim>\<open>if/elif\<close> chain has no \<^verbatim>\<open>else\<close>: for any other string the
  array of zeros made on line 21 is what remains.
\<close>

definition harvest_survivors :: "real list \<Rightarrow> real \<Rightarrow> real \<Rightarrow> real \<Rightarrow> string \<Rightarrow> real list" where
  "harvest_survivors current val_j val_s val_a mode =
     (let survivors = np_zeros 3 in
      if mode = ''Constant Quota'' then
        (let survivors = survivors[0 := max 0 (current ! 0 - val_j)];
             survivors = survivors[1 := max 0 (current ! 1 - val_s)];
             survivors = survivors[2 := max 0 (current ! 2 - val_a)]
         in survivors)
      else if mode = ''Proportional (Uniform)'' then
        (let global_rate = val_j
         in map (\<lambda>x. x * (1 - global_rate)) current)
      else if mode = ''Selective (Age-Specific)'' then
        (let survivors = survivors[0 := current ! 0 * (1 - val_j)];
             survivors = survivors[1 := current ! 1 * (1 - val_s)];
             survivors = survivors[2 := current ! 2 * (1 - val_a)]
         in survivors)
      else survivors)"

text \<open>Lines 37-41: the stage transition applied to the survivors.\<close>

definition progression :: "real list \<Rightarrow> real list" where
  "progression survivors =
     (let next_j = (survivors ! 0 * F_J) + (survivors ! 1 * F_S) + (survivors ! 2 * F_A);
          next_s = survivors ! 0 * S_J_to_S;
          next_a = (survivors ! 1 * S_S_to_A) + (survivors ! 2 * S_A_surv)
      in [next_j, next_s, next_a])"

text \<open>
  The specification's \<^verbatim>\<open>advance\<close>: survivors, then progression, as one year of the loop
  body composes them (lines 21-41).
\<close>

definition advance :: "real list \<Rightarrow> real \<Rightarrow> real \<Rightarrow> real \<Rightarrow> string \<Rightarrow> real list" where
  "advance current val_j val_s val_a mode =
     progression (harvest_survivors current val_j val_s val_a mode)"

text \<open>
  One pass through the body of the \<^verbatim>\<open>for t in range(YEARS)\<close> loop (lines 21-42), on the
  pair of the loop's two variables: the history array and the current population.
\<close>

definition loop_body :: "real \<Rightarrow> real \<Rightarrow> real \<Rightarrow> string \<Rightarrow> nat
    \<Rightarrow> real list list \<times> real list \<Rightarrow> real list list \<times> real list" where
  "loop_body val_j val_s val_a mode t st =
     (let history = fst st;
          pop = snd st;
          survivors = harvest_survivors pop val_j val_s val_a mode;
          pop = progression survivors;
          history = history[t + 1 := pop]
      in (history, pop))"

definition run_simulation :: "real \<Rightarrow> real \<Rightarrow> real \<Rightarrow> string \<Rightarrow> real list list" where
  "run_simulation val_j val_s val_a mode =
     (let history = np_zeros2 (YEARS + 1) 3;
          history = history[0 := INITIAL_POP];
          pop = INITIAL_POP
      in fst (fold (loop_body val_j val_s val_a mode) [0..<YEARS] (history, pop)))"

text \<open>
  The total line of the plot (lines 57 and 133): \<^verbatim>\<open>np.sum(data, axis=1)\<close>, the sum of
  every row of the history.
\<close>

definition total_line :: "real list list \<Rightarrow> real list" where
  "total_line data = map np_sum data"

section \<open>The incremental driver of \<^verbatim>\<open>realtime_simulation.py\<close>\<close>

record SimulationState =
  current_pop :: "real list"
  history_j :: "real list"
  history_s :: "real list"
  history_a :: "real list"
  history_tot :: "real list"
  time :: "int list"
  is_running :: bool
  year_counter :: int

text \<open>\<^verbatim>\<open>reset\<close> (lines 19-27) assigns every attribute of the object.\<close>

definition reset :: "SimulationState \<Rightarrow> SimulationState" where
  "reset self =
     self\<lparr> current_pop := INITIAL_POP,
           history_j := [INITIAL_POP ! 0],
           history_s := [INITIAL_POP ! 1],
           history_a := [INITIAL_POP ! 2],
           history_tot := [np_sum INITIAL_POP],
           time := [0],
           is_running := False,
           year_counter := 0 \<rparr>"

text \<open>
  \<^verbatim>\<open>__init__\<close> (lines 16-17) only calls \<^verbatim>\<open>reset\<close>, on an object that has no attribute yet;
  since \<^verbatim>\<open>reset\<close> assigns all eight, the new object is the record of those assignments.
\<close>

definition new_SimulationState :: SimulationState where
  "new_SimulationState =
     \<lparr> current_pop = INITIAL_POP,
       history_j = [INITIAL_POP ! 0],
       history_s = [INITIAL_POP ! 1],
       history_a = [INITIAL_POP ! 2],
       history_tot = [np_sum INITIAL_POP],
       time = [0],
       is_running = False,
       year_counter = 0 \<rparr>"

text \<open>Lines 31-46 of \<^verbatim>\<open>step\<close>: the survivors, again with no \<^verbatim>\<open>else\<close> branch.\<close>

definition step_survivors :: "real list \<Rightarrow> real \<Rightarrow> real \<Rightarrow> real \<Rightarrow> string \<Rightarrow> real list" where
  "step_survivors current val_j val_s val_a mode =
     (let survivors = np_zeros 3 in
      if mode = ''Constant Quota'' then
        (let survivors = survivors[0 := max 0 (current ! 0 - val_j)];
             survivors = survivors[1 := max 0 (current ! 1 - val_s)];
             survivors = survivors[2 := max 0 (current ! 2 - val_a)]
         in survivors)
      else if mode = ''Proportional (Uniform)'' then
        (let global_rate = val_j
         in map (\<lambda>x. x * (1 - global_rate)) current)
      else if mode = ''Selective (Age-Specific)'' then
        (let survivors = survivors[0 := current ! 0 * (1 - val_j)];
             survivors = survivors[1 := current ! 1 * (1 - val_s)];
             survivors = survivors[2 := current ! 2 * (1 - val_a)]
         in survivors)
      else survivors)"

text \<open>\<^verbatim>\<open>step\<close> (lines 29-61): survivors, progression, then the appends to the five lists.\<close>

definition step :: "real \<Rightarrow> real \<Rightarrow> real \<Rightarrow> string \<Rightarrow> SimulationState \<Rightarrow> SimulationState" where
  "step val_j val_s val_a mode self =
     (let current = current_pop self;
          survivors = step_survivors current val_j val_s val_a mode;
          next_j = (survivors ! 0 * F_J) + (survivors ! 1 * F_S) + (survivors ! 2 * F_A);
          next_s = survivors ! 0 * S_J_to_S;
          next_a = (survivors ! 1 * S_S_to_A) + (survivors ! 2 * S_A_surv);
          self = self\<lparr>current_pop := [next_j, next_s, next_a]\<rparr>;
          self = self\<lparr>year_counter := year_counter self + 1\<rparr>;
          self = self\<lparr>history_j := history_j self @ [next_j]\<rparr>;
          self = self\<lparr>history_s := history_s self @ [next_s]\<rparr>;
          self = self\<lparr>history_a := history_a self @ [next_a]\<rparr>;
          self = self\<lparr>history_tot := history_tot self @ [np_sum (current_pop self)]\<rparr>;
          self = self\<lparr>time := time self @ [year_counter self]\<rparr>
      in self)"

text \<open>\<^verbatim>\<open>toggle_play\<close> (line 168) flips the flag; the redraw it triggers is not modelled.\<close>

definition toggle_play :: "SimulationState \<Rightarrow> SimulationState" where
  "toggle_play self = self\<lparr>is_running := \<not> is_running self\<rparr>"

text \<open>
  A run of the driver: the calls made on the object, in order. \<^verbatim>\<open>steps\<close> is a sequence of
  \<^verbatim>\<open>step\<close> calls, each with its own arguments; \<^verbatim>\<open>run_calls\<close> also allows \<^verbatim>\<open>reset\<close> and
  \<^verbatim>\<open>toggle_play\<close> in between.
\<close>

fun steps :: "(real \<times> real \<times> real \<times> string) list \<Rightarrow> SimulationState \<Rightarrow> SimulationState" where
  "steps [] self = self"
| "steps ((val_j, val_s, val_a, mode) # calls) self = steps calls (step val_j val_s val_a mode self)"

datatype call = Step real real real string | Reset | Toggle

fun run_call :: "call \<Rightarrow> SimulationState \<Rightarrow> SimulationState" where
  "run_call (Step val_j val_s val_a mode) self = step val_j val_s val_a mode self"
| "run_call Reset self = reset self"
| "run_call Toggle self = toggle_play self"

fun run_calls :: "call list \<Rightarrow> SimulationState \<Rightarrow> SimulationState" where
  "run_calls [] self = self"
| "run_calls (c # cs) self = run_calls cs (run_call c self)"

text \<open>The entries the driver has recorded: time index and stage vector, in order.\<close>

definition recorded :: "SimulationState \<Rightarrow> (int \<times> real list) list" where
  "recorded self =
     zip (time self)
       (map (\<lambda>(j, s, a). [j, s, a]) (zip (history_j self) (zip (history_s self) (history_a self))))"


text \<open>
  The harvest parameters the control layer can deliver (\<^verbatim>\<open>change_mode\<close>, both files): every
  slider starts at 0; in Constant Quota mode the three quotas are counts (the sliders cap
  them at 800, any non-negative count is admitted here), in Proportional mode the first
  slider is a rate between 0 and 1 and the other two are inactive, otherwise all three are
  rates between 0 and 1.
\<close>

definition in_range :: "string \<Rightarrow> real \<Rightarrow> real \<Rightarrow> real \<Rightarrow> bool" where
  "in_range mode val_j val_s val_a =
     (if mode = ''Constant Quota'' then 0 \<le> val_j \<and> 0 \<le> val_s \<and> 0 \<le> val_a
      else if mode = ''Proportional (Uniform)'' then 0 \<le> val_j \<and> val_j \<le> 1
      else 0 \<le> val_j \<and> val_j \<le> 1 \<and> 0 \<le> val_s \<and> val_s \<le> 1 \<and> 0 \<le> val_a \<and> val_a \<le> 1)"

text \<open>
  The invariant that ties the total list to the three stage lists: entry by entry the total
  is the sum of the stages, the lists are as long as the time list, and the first total is
  the sum of the initial population.
\<close>

definition totals_agree :: "SimulationState \<Rightarrow> bool" where
  "totals_agree self \<longleftrightarrow>
     history_tot self =
       map (\<lambda>t. history_j self ! t + history_s self ! t + history_a self ! t)
         [0..<length (time self)]
     \<and> length (history_j self) = length (time self)
     \<and> length (history_s self) = length (time self)
     \<and> length (history_a self) = length (time self)
     \<and> history_tot self ! 0 = np_sum INITIAL_POP"

section \<open>Basic facts about one year\<close>

lemma step_survivors_eq: "step_survivors = harvest_survivors"
  by (intro ext) (simp add: step_survivors_def harvest_survivors_def)

lemma reset_new: "reset self = new_SimulationState"
  by (simp add: reset_def new_SimulationState_def)

lemma loop_body_fst:
  "fst (loop_body val_j val_s val_a mode t st) =
     (fst st)[t + 1 := advance (snd st) val_j val_s val_a mode]"
  by (simp add: loop_body_def advance_def Let_def)

lemma loop_body_snd:
  "snd (loop_body val_j val_s val_a mode t st) = advance (snd st) val_j val_s val_a mode"
  by (simp add: loop_body_def advance_def Let_def)

lemma fold_loop_snd:
  "snd (fold (loop_body val_j val_s val_a mode) [0..<n] (h, p)) =
     ((\<lambda>q. advance q val_j val_s val_a mode) ^^ n) p"
  by (induction n) (simp_all add: loop_body_snd)

lemma fold_loop_length:
  "length (fst (fold (loop_body val_j val_s val_a mode) [0..<n] (h, p))) = length h"
  by (induction n) (simp_all add: loop_body_fst)

lemma fold_loop_nth:
  "t < length h \<Longrightarrow>
   fst (fold (loop_body val_j val_s val_a mode) [0..<n] (h, p)) ! t =
     (if 0 < t \<and> t \<le> n then ((\<lambda>q. advance q val_j val_s val_a mode) ^^ t) p else h ! t)"
proof (induction n)
  case 0
  then show ?case by auto
next
  case (Suc n)
  let ?st = "fold (loop_body val_j val_s val_a mode) [0..<n] (h, p)"
  have eq: "fst (fold (loop_body val_j val_s val_a mode) [0..<Suc n] (h, p)) =
      (fst ?st)[n + 1 := ((\<lambda>q. advance q val_j val_s val_a mode) ^^ Suc n) p]"
    by (simp add: loop_body_fst fold_loop_snd)
  show ?case
  proof (cases "t = Suc n")
    case True
    with Suc.prems show ?thesis
      by (simp add: eq fold_loop_length del: upt_Suc funpow.simps)
  next
    case False
    with Suc show ?thesis
      by (simp add: eq del: upt_Suc funpow.simps)
  qed
qed

lemma run_simulation_rows:
  "run_simulation val_j val_s val_a mode =
     map (\<lambda>t. ((\<lambda>q. advance q val_j val_s val_a mode) ^^ t) INITIAL_POP) [0..<YEARS + 1]"
proof (rule nth_equalityI)
  show "length (run_simulation val_j val_s val_a mode) =
        length (map (\<lambda>t. ((\<lambda>q. advance q val_j val_s val_a mode) ^^ t) INITIAL_POP) [0..<YEARS + 1])"
    by (simp add: run_simulation_def fold_loop_length np_zeros2_def)
next
  fix t assume "t < length (run_simulation val_j val_s val_a mode)"
  then have t: "t < YEARS + 1"
    by (simp add: run_simulation_def fold_loop_length np_zeros2_def)
  have "run_simulation val_j val_s val_a mode ! t =
          ((\<lambda>q. advance q val_j val_s val_a mode) ^^ t) INITIAL_POP"
    using t by (cases "t = 0") (simp_all add: run_simulation_def fold_loop_nth np_zeros2_def del: upt_Suc)
  then show "run_simulation val_j val_s val_a mode ! t =
     map (\<lambda>t. ((\<lambda>q. advance q val_j val_s val_a mode) ^^ t) INITIAL_POP) [0..<YEARS + 1] ! t"
    using t by (simp add: nth_map_upt del: upt_Suc)
qed


lemma advance_rows:
  "advance q val_j val_s val_a mode =
     [advance q val_j val_s val_a mode ! 0, advance q val_j val_s val_a mode ! 1,
      advance q val_j val_s val_a mode ! 2]"
  by (simp add: advance_def progression_def Let_def)

lemma step_current_pop:
  "current_pop (step val_j val_s val_a mode self) = advance (current_pop self) val_j val_s val_a mode"
  by (simp add: step_def step_survivors_eq advance_def progression_def Let_def)

lemma step_history_j:
  "history_j (step val_j val_s val_a mode self) =
     history_j self @ [advance (current_pop self) val_j val_s val_a mode ! 0]"
  by (simp add: step_def step_survivors_eq advance_def progression_def Let_def)

lemma step_history_s:
  "history_s (step val_j val_s val_a mode self) =
     history_s self @ [advance (current_pop self) val_j val_s val_a mode ! 1]"
  by (simp add: step_def step_survivors_eq advance_def progression_def Let_def)

lemma step_history_a:
  "history_a (step val_j val_s val_a mode self) =
     history_a self @ [advance (current_pop self) val_j val_s val_a mode ! 2]"
  by (simp add: step_def step_survivors_eq advance_def progression_def Let_def)

lemma step_history_tot:
  "history_tot (step val_j val_s val_a mode self) =
     history_tot self @ [np_sum (advance (current_pop self) val_j val_s val_a mode)]"
  by (simp add: step_def step_survivors_eq advance_def progression_def Let_def)

lemma step_time:
  "time (step val_j val_s val_a mode self) = time self @ [year_counter self + 1]"
  by (simp add: step_def Let_def)

lemma step_year_counter:
  "year_counter (step val_j val_s val_a mode self) = year_counter self + 1"
  by (simp add: step_def Let_def)

lemma step_is_running:
  "is_running (step val_j val_s val_a mode self) = is_running self"
  by (simp add: step_def Let_def)

lemmas step_fields = step_current_pop step_history_j step_history_s step_history_a
  step_history_tot step_time step_year_counter step_is_running

lemma steps_snoc: "steps (calls @ [(val_j, val_s, val_a, mode)]) self =
    step val_j val_s val_a mode (steps calls self)"
  by (induction calls self rule: steps.induct) simp_all


lemma steps_replicate_Suc:
  "steps (replicate (Suc n) (val_j, val_s, val_a, mode)) self =
     step val_j val_s val_a mode (steps (replicate n (val_j, val_s, val_a, mode)) self)"
proof -
  have "replicate (Suc n) (val_j, val_s, val_a, mode) =
          replicate n (val_j, val_s, val_a, mode) @ [(val_j, val_s, val_a, mode)]"
    by (simp add: replicate_append_same)
  then show ?thesis
    by (simp only: steps_snoc)
qed

lemma same_steps_current_pop:
  "current_pop (steps (replicate n (val_j, val_s, val_a, mode)) self) =
     ((\<lambda>q. advance q val_j val_s val_a mode) ^^ n) (current_pop self)"
proof (induction n)
  case 0
  show ?case by simp
next
  case (Suc n)
  then show ?case
    by (simp only: steps_replicate_Suc step_current_pop funpow.simps o_apply)
qed

lemma same_steps_year_counter:
  "year_counter (steps (replicate n (val_j, val_s, val_a, mode)) self) = year_counter self + int n"
proof (induction n)
  case 0
  show ?case by simp
next
  case (Suc n)
  then show ?case
    by (simp add: steps_replicate_Suc step_year_counter del: replicate_Suc)
qed

lemma same_steps_history_j:
  "history_j (steps (replicate n (val_j, val_s, val_a, mode)) self) =
     history_j self @
       map (\<lambda>k. ((\<lambda>q. advance q val_j val_s val_a mode) ^^ k) (current_pop self) ! 0) [1..<n + 1]"
proof (induction n)
  case 0
  show ?case by simp
next
  case (Suc n)
  then show ?case
    by (simp only: steps_replicate_Suc step_history_j same_steps_current_pop) simp
qed

lemma same_steps_history_s:
  "history_s (steps (replicate n (val_j, val_s, val_a, mode)) self) =
     history_s self @
       map (\<lambda>k. ((\<lambda>q. advance q val_j val_s val_a mode) ^^ k) (current_pop self) ! 1) [1..<n + 1]"
proof (induction n)
  case 0
  show ?case by simp
next
  case (Suc n)
  then show ?case
    by (simp only: steps_replicate_Suc step_history_s same_steps_current_pop) simp
qed

lemma same_steps_history_a:
  "history_a (steps (replicate n (val_j, val_s, val_a, mode)) self) =
     history_a self @
       map (\<lambda>k. ((\<lambda>q. advance q val_j val_s val_a mode) ^^ k) (current_pop self) ! 2) [1..<n + 1]"
proof (induction n)
  case 0
  show ?case by simp
next
  case (Suc n)
  then show ?case
    by (simp only: steps_replicate_Suc step_history_a same_steps_current_pop) simp
qed

lemma same_steps_time:
  "time (steps (replicate n (val_j, val_s, val_a, mode)) self) =
     time self @ map (\<lambda>k. year_counter self + int k) [1..<n + 1]"
proof (induction n)
  case 0
  show ?case by simp
next
  case (Suc n)
  then show ?case
    by (simp only: steps_replicate_Suc step_time same_steps_year_counter) simp
qed

lemma upt_from_0: "[0..<n + 1] = 0 # [1..<n + 1]"
  by (simp add: upt_conv_Cons del: upt_Suc)

section \<open>Batch projection and incremental driver agree\<close>

text \<open>
  Claim C1. For every harvest triple and every mode, the history returned by
  \<^verbatim>\<open>run_simulation\<close> is, row by row, what \<^verbatim>\<open>YEARS\<close> successive \<^verbatim>\<open>step\<close> calls with the
  same arguments record on a freshly reset \<^verbatim>\<open>SimulationState\<close>: row \<open>t\<close> of the batch
  history is the triple of the \<open>t\<close>-th entries of the three stage lists, the recorded
  times are \<open>0, 1, ..., YEARS\<close>, and each list has \<open>YEARS + 1\<close> entries. The mode ranges
  over all strings, so the three modes of the enumeration are covered.
\<close>

theorem batch_equals_incremental:
  "run_simulation val_j val_s val_a mode =
     map (\<lambda>t. [history_j (steps (replicate YEARS (val_j, val_s, val_a, mode)) (reset self)) ! t,
                history_s (steps (replicate YEARS (val_j, val_s, val_a, mode)) (reset self)) ! t,
                history_a (steps (replicate YEARS (val_j, val_s, val_a, mode)) (reset self)) ! t])
         [0..<YEARS + 1]
   \<and> time (steps (replicate YEARS (val_j, val_s, val_a, mode)) (reset self)) = map int [0..<YEARS + 1]
   \<and> length (history_j (steps (replicate YEARS (val_j, val_s, val_a, mode)) (reset self))) = YEARS + 1
   \<and> length (history_s (steps (replicate YEARS (val_j, val_s, val_a, mode)) (reset self))) = YEARS + 1
   \<and> length (history_a (steps (replicate YEARS (val_j, val_s, val_a, mode)) (reset self))) = YEARS + 1"
proof -
  let ?adv = "\<lambda>q. advance q val_j val_s val_a mode"
  let ?self = "steps (replicate YEARS (val_j, val_s, val_a, mode)) (reset self)"
  have cur: "current_pop (reset self) = INITIAL_POP"
    by (simp add: reset_def)
  have hj: "history_j ?self = map (\<lambda>k. (?adv ^^ k) INITIAL_POP ! 0) [0..<YEARS + 1]"
    by (simp only: same_steps_history_j cur upt_from_0) (simp add: reset_def)
  have hs: "history_s ?self = map (\<lambda>k. (?adv ^^ k) INITIAL_POP ! 1) [0..<YEARS + 1]"
    by (simp only: same_steps_history_s cur upt_from_0) (simp add: reset_def)
  have ha: "history_a ?self = map (\<lambda>k. (?adv ^^ k) INITIAL_POP ! 2) [0..<YEARS + 1]"
    by (simp only: same_steps_history_a cur upt_from_0) (simp add: reset_def)
  have tm: "time ?self = map int [0..<YEARS + 1]"
    by (simp only: same_steps_time upt_from_0) (simp add: reset_def)
  have row: "(?adv ^^ t) INITIAL_POP =
      [(?adv ^^ t) INITIAL_POP ! 0, (?adv ^^ t) INITIAL_POP ! 1, (?adv ^^ t) INITIAL_POP ! 2]" for t
  proof (cases t)
    case 0
    then show ?thesis by (simp add: INITIAL_POP_def)
  next
    case (Suc k)
    then show ?thesis
      using advance_rows [of "(?adv ^^ k) INITIAL_POP" val_j val_s val_a mode] by simp
  qed
  have "run_simulation val_j val_s val_a mode =
          map (\<lambda>t. [history_j ?self ! t, history_s ?self ! t, history_a ?self ! t]) [0..<YEARS + 1]"
    unfolding run_simulation_rows
  proof (rule map_cong [OF refl])
    fix t assume "t \<in> set [0..<YEARS + 1]"
    then have t: "t < YEARS + 1" by (simp del: upt_Suc)
    have "history_j ?self ! t = (?adv ^^ t) INITIAL_POP ! 0"
         "history_s ?self ! t = (?adv ^^ t) INITIAL_POP ! 1"
         "history_a ?self ! t = (?adv ^^ t) INITIAL_POP ! 2"
      using t by (simp_all only: hj hs ha nth_map_upt [of t "YEARS + 1" 0] diff_zero add_0)
    with row [of t]
    show "(?adv ^^ t) INITIAL_POP = [history_j ?self ! t, history_s ?self ! t, history_a ?self ! t]"
      by simp
  qed
  moreover have "length (history_j ?self) = YEARS + 1" "length (history_s ?self) = YEARS + 1"
      "length (history_a ?self) = YEARS + 1"
    by (simp_all only: hj hs ha length_map length_upt diff_zero)
  ultimately show ?thesis
    using tm by simp
qed

section \<open>One year on a stage vector\<close>

lemma harvest_survivors_vec:
  "harvest_survivors [J, S, A] val_j val_s val_a mode =
     (if mode = ''Constant Quota'' then [max 0 (J - val_j), max 0 (S - val_s), max 0 (A - val_a)]
      else if mode = ''Proportional (Uniform)'' then [J * (1 - val_j), S * (1 - val_j), A * (1 - val_j)]
      else if mode = ''Selective (Age-Specific)'' then [J * (1 - val_j), S * (1 - val_s), A * (1 - val_a)]
      else [0, 0, 0])"
  by (simp add: harvest_survivors_def np_zeros_def numeral_3_eq_3 numeral_2_eq_2)

lemma progression_vec:
  "progression [a, b, c] = [a * F_J + b * F_S + c * F_A, a * S_J_to_S, b * S_S_to_A + c * S_A_surv]"
  by (simp add: progression_def)

lemma advance_vec:
  "advance [J, S, A] val_j val_s val_a mode =
     progression (harvest_survivors [J, S, A] val_j val_s val_a mode)"
  by (simp add: advance_def)

lemmas coefficients = F_J_def F_S_def F_A_def S_J_to_S_def S_S_to_A_def S_A_surv_def

lemma loop_body_pair:
  "loop_body val_j val_s val_a mode t (history, pop) =
     (history[t + 1 := advance pop val_j val_s val_a mode], advance pop val_j val_s val_a mode)"
  by (simp add: prod_eq_iff loop_body_fst loop_body_snd)

lemma step_record:
  "step val_j val_s val_a mode self =
     self\<lparr> current_pop := advance (current_pop self) val_j val_s val_a mode,
           history_j := history_j self @ [advance (current_pop self) val_j val_s val_a mode ! 0],
           history_s := history_s self @ [advance (current_pop self) val_j val_s val_a mode ! 1],
           history_a := history_a self @ [advance (current_pop self) val_j val_s val_a mode ! 2],
           history_tot := history_tot self @ [np_sum (advance (current_pop self) val_j val_s val_a mode)],
           time := time self @ [year_counter self + 1],
           year_counter := year_counter self + 1 \<rparr>"
  by (simp add: step_def step_survivors_eq advance_def progression_def Let_def)

section \<open>The two worked scenarios\<close>

text \<open>
  Claim C5. In Selective (Age-Specific) mode with all three rates 0, one year from the
  stage vector (1000, 500, 200), under the coefficients F = (0, 0.8, 2.5), S_J_to_S = 0.5,
  S_S_to_A = 0.7 and S_A_surv = 0.8, leaves the survivors at (1000, 500, 200) and gives the
  next vector (900, 500, 510): in the loop body of \<^verbatim>\<open>run_simulation\<close> (and so in row 1 of
  its history) and in \<^verbatim>\<open>step\<close>.
\<close>

theorem selective_zero_harvest_scenario:
  "F_J = 0 \<and> F_S = 0.8 \<and> F_A = 2.5 \<and> S_J_to_S = 0.5 \<and> S_S_to_A = 0.7 \<and> S_A_surv = 0.8
   \<and> harvest_survivors [1000, 500, 200] 0 0 0 ''Selective (Age-Specific)'' = [1000, 500, 200]
   \<and> advance [1000, 500, 200] 0 0 0 ''Selective (Age-Specific)'' = [900, 500, 510]
   \<and> run_simulation 0 0 0 ''Selective (Age-Specific)'' ! 1 = [900, 500, 510]
   \<and> step_survivors [1000, 500, 200] 0 0 0 ''Selective (Age-Specific)'' = [1000, 500, 200]
   \<and> current_pop (step 0 0 0 ''Selective (Age-Specific)'' (self\<lparr>current_pop := [1000, 500, 200]\<rparr>))
       = [900, 500, 510]
   \<and> current_pop (step 0 0 0 ''Selective (Age-Specific)'' (reset self)) = [900, 500, 510]"
proof -
  have adv: "advance [1000, 500, 200] 0 0 0 ''Selective (Age-Specific)'' = [900, 500, 510]"
    by (simp add: advance_vec harvest_survivors_vec progression_vec coefficients)
  have "run_simulation 0 0 0 ''Selective (Age-Specific)'' ! 1 =
      advance INITIAL_POP 0 0 0 ''Selective (Age-Specific)''"
    by (simp add: run_simulation_rows nth_map_upt YEARS_def del: upt_Suc)
  then have "run_simulation 0 0 0 ''Selective (Age-Specific)'' ! 1 = [900, 500, 510]"
    by (simp add: adv INITIAL_POP_def)
  then show ?thesis
    using adv
    by (simp add: loop_body_snd step_current_pop step_survivors_eq harvest_survivors_vec
        reset_def INITIAL_POP_def coefficients)
qed

text \<open>
  Claim C6. In Constant Quota mode each stage's survivors are the larger of 0 and the stage
  minus its own quota, in both programs; and one year from (1000, 500, 200) with the quotas
  (100, 0, 0) leaves the survivors (900, 500, 200) and gives the next vector (900, 450, 510).
\<close>

theorem constant_quota_survivors:
  "harvest_survivors [J, S, A] val_j val_s val_a ''Constant Quota'' =
     [max 0 (J - val_j), max 0 (S - val_s), max 0 (A - val_a)]
   \<and> step_survivors [J, S, A] val_j val_s val_a ''Constant Quota'' =
     [max 0 (J - val_j), max 0 (S - val_s), max 0 (A - val_a)]
   \<and> harvest_survivors [1000, 500, 200] 100 0 0 ''Constant Quota'' = [900, 500, 200]
   \<and> advance [1000, 500, 200] 100 0 0 ''Constant Quota'' = [900, 450, 510]
   \<and> run_simulation 100 0 0 ''Constant Quota'' ! 1 = [900, 450, 510]
   \<and> current_pop (step 100 0 0 ''Constant Quota'' (self\<lparr>current_pop := [1000, 500, 200]\<rparr>))
       = [900, 450, 510]
   \<and> current_pop (step 100 0 0 ''Constant Quota'' (reset self)) = [900, 450, 510]"
proof -
  have adv: "advance [1000, 500, 200] 100 0 0 ''Constant Quota'' = [900, 450, 510]"
    by (simp add: advance_vec harvest_survivors_vec progression_vec coefficients)
  have "run_simulation 100 0 0 ''Constant Quota'' ! 1 =
      advance INITIAL_POP 100 0 0 ''Constant Quota''"
    by (simp add: run_simulation_rows nth_map_upt YEARS_def del: upt_Suc)
  then have "run_simulation 100 0 0 ''Constant Quota'' ! 1 = [900, 450, 510]"
    by (simp add: adv INITIAL_POP_def)
  then show ?thesis
    using adv
    by (simp add: loop_body_snd step_current_pop step_survivors_eq harvest_survivors_vec
        reset_def INITIAL_POP_def)
qed

section \<open>Proportional mode reads one parameter\<close>

text \<open>
  Claim C8. In Proportional (Uniform) mode the survivors are the stage vector times
  \<open>1 - val_j\<close>, component by component, and the second and third harvest parameters have
  no effect: two calls that agree on \<open>val_j\<close> give the same loop state, the same batch
  history and the same driver state after \<^verbatim>\<open>step\<close>, whatever the other two values are.
\<close>

theorem proportional_uses_slot_0_only:
  "harvest_survivors [J, S, A] val_j val_s val_a ''Proportional (Uniform)'' =
     [J * (1 - val_j), S * (1 - val_j), A * (1 - val_j)]
   \<and> step_survivors [J, S, A] val_j val_s val_a ''Proportional (Uniform)'' =
     [J * (1 - val_j), S * (1 - val_j), A * (1 - val_j)]
   \<and> advance [J, S, A] val_j val_s val_a ''Proportional (Uniform)'' =
       advance [J, S, A] val_j val_s' val_a' ''Proportional (Uniform)''
   \<and> run_simulation val_j val_s val_a ''Proportional (Uniform)'' =
       run_simulation val_j val_s' val_a' ''Proportional (Uniform)''
   \<and> step val_j val_s val_a ''Proportional (Uniform)'' (self\<lparr>current_pop := [J, S, A]\<rparr>) =
       step val_j val_s' val_a' ''Proportional (Uniform)'' (self\<lparr>current_pop := [J, S, A]\<rparr>)"
proof -
  have adv: "advance q val_j val_s val_a ''Proportional (Uniform)'' =
      advance q val_j val_s' val_a' ''Proportional (Uniform)''" for q
    by (simp add: advance_def harvest_survivors_def)
  show ?thesis
    by (simp add: harvest_survivors_vec step_survivors_eq loop_body_pair step_record
        run_simulation_rows adv [of _])
qed

section \<open>No stage goes negative in one year\<close>

lemma progression_nonneg:
  "0 \<le> a \<Longrightarrow> 0 \<le> b \<Longrightarrow> 0 \<le> c \<Longrightarrow> list_all (\<lambda>x. 0 \<le> x) (progression [a, b, c])"
  by (simp add: progression_vec F_J_def F_S_def F_A_def S_J_to_S_def S_S_to_A_def S_A_surv_def)

lemma advance_nonneg:
  assumes "0 \<le> J" "0 \<le> S" "0 \<le> A" "in_range mode val_j val_s val_a"
  shows "list_all (\<lambda>x. 0 \<le> x) (advance [J, S, A] val_j val_s val_a mode)"
proof -
  consider (quota) "mode = ''Constant Quota''"
    | (uniform) "mode = ''Proportional (Uniform)''"
    | (selective) "mode = ''Selective (Age-Specific)''"
    | (other) "mode \<noteq> ''Constant Quota''" "mode \<noteq> ''Proportional (Uniform)''"
        "mode \<noteq> ''Selective (Age-Specific)''"
    by blast
  then show ?thesis
  proof cases
    case quota
    then show ?thesis
      by (simp add: advance_def harvest_survivors_vec progression_nonneg)
  next
    case uniform
    with assms have "0 \<le> 1 - val_j" by (simp add: in_range_def)
    with assms uniform show ?thesis
      by (simp add: advance_def harvest_survivors_vec progression_nonneg)
  next
    case selective
    with assms have "0 \<le> 1 - val_j" "0 \<le> 1 - val_s" "0 \<le> 1 - val_a"
      by (simp_all add: in_range_def)
    with assms selective show ?thesis
      by (simp add: advance_def harvest_survivors_vec progression_nonneg)
  next
    case other
    then show ?thesis
      by (simp add: advance_def harvest_survivors_vec progression_nonneg)
  qed
qed

text \<open>
  Claim C4. From a stage vector whose three components are non-negative, with harvest
  parameters in the range of the mode (non-negative quotas under Constant Quota, rates
  between 0 and 1 under the other modes), one year yields a vector of three components,
  each at least 0: for the loop body of \<^verbatim>\<open>run_simulation\<close> and for \<^verbatim>\<open>step\<close>.
\<close>

theorem one_year_nonneg:
  assumes "0 \<le> J" and "0 \<le> S" and "0 \<le> A" and "in_range mode val_j val_s val_a"
  shows "list_all (\<lambda>x. 0 \<le> x) (advance [J, S, A] val_j val_s val_a mode)
       \<and> length (advance [J, S, A] val_j val_s val_a mode) = 3
       \<and> list_all (\<lambda>x. 0 \<le> x)
           (current_pop (step val_j val_s val_a mode (self\<lparr>current_pop := [J, S, A]\<rparr>)))
       \<and> length (current_pop (step val_j val_s val_a mode (self\<lparr>current_pop := [J, S, A]\<rparr>))) = 3"
proof -
  have "length (advance [J, S, A] val_j val_s val_a mode) = 3"
    by (subst advance_rows) simp
  with advance_nonneg [OF assms] show ?thesis
    by (simp add: step_current_pop)
qed

theorem one_year_nonneg_witness:
  "(0::real) \<le> 1000 \<and> (0::real) \<le> 500 \<and> (0::real) \<le> 200
   \<and> in_range ''Selective (Age-Specific)'' 1 0.5 0
   \<and> advance [1000, 500, 200] 1 0.5 0 ''Selective (Age-Specific)'' = [700, 0, 335]
   \<and> list_all (\<lambda>x. 0 \<le> x) (advance [1000, 500, 200] 1 0.5 0 ''Selective (Age-Specific)'')
   \<and> list_all (\<lambda>x. 0 \<le> x)
        (current_pop (step 1 0.5 0 ''Selective (Age-Specific)''
           (new_SimulationState\<lparr>current_pop := [1000, 500, 200]\<rparr>)))"
  using one_year_nonneg [of 1000 500 200 "''Selective (Age-Specific)''" 1 "0.5" 0 new_SimulationState]
  by (simp add: in_range_def advance_vec harvest_survivors_vec progression_vec coefficients)

section \<open>Zero harvest is the same in every mode\<close>

lemma advance_zero_harvest:
  assumes "0 \<le> J" and "0 \<le> S" and "0 \<le> A"
  shows "advance [J, S, A] 0 0 0 ''Constant Quota'' = progression [J, S, A]"
    and "advance [J, S, A] 0 0 0 ''Proportional (Uniform)'' = progression [J, S, A]"
    and "advance [J, S, A] 0 0 0 ''Selective (Age-Specific)'' = progression [J, S, A]"
  using assms by (simp_all add: advance_vec harvest_survivors_vec)

text \<open>
  Claim C7. For every stage vector (three non-negative numbers, as the data model defines
  it), with all three harvest parameters 0, the modes Constant Quota, Proportional
  (Uniform) and Selective (Age-Specific) give the same next vector, and \<^verbatim>\<open>step\<close> leaves the
  driver in the same state whichever of the three it is called with.
\<close>

theorem zero_harvest_modes_agree:
  assumes "0 \<le> J" and "0 \<le> S" and "0 \<le> A"
  shows "advance [J, S, A] 0 0 0 ''Constant Quota'' =
           advance [J, S, A] 0 0 0 ''Proportional (Uniform)''
       \<and> advance [J, S, A] 0 0 0 ''Proportional (Uniform)'' =
           advance [J, S, A] 0 0 0 ''Selective (Age-Specific)''
       \<and> step 0 0 0 ''Constant Quota'' (self\<lparr>current_pop := [J, S, A]\<rparr>) =
           step 0 0 0 ''Proportional (Uniform)'' (self\<lparr>current_pop := [J, S, A]\<rparr>)
       \<and> step 0 0 0 ''Proportional (Uniform)'' (self\<lparr>current_pop := [J, S, A]\<rparr>) =
           step 0 0 0 ''Selective (Age-Specific)'' (self\<lparr>current_pop := [J, S, A]\<rparr>)"
  by (simp add: step_record advance_zero_harvest [OF assms])

theorem zero_harvest_modes_agree_witness:
  "(0::real) \<le> 1000 \<and> (0::real) \<le> 500 \<and> (0::real) \<le> 200
   \<and> advance [1000, 500, 200] 0 0 0 ''Constant Quota'' = [900, 500, 510]
   \<and> advance [1000, 500, 200] 0 0 0 ''Constant Quota'' =
       advance [1000, 500, 200] 0 0 0 ''Proportional (Uniform)''
   \<and> advance [1000, 500, 200] 0 0 0 ''Proportional (Uniform)'' =
       advance [1000, 500, 200] 0 0 0 ''Selective (Age-Specific)''
   \<and> step 0 0 0 ''Constant Quota'' (new_SimulationState\<lparr>current_pop := [1000, 500, 200]\<rparr>) =
       step 0 0 0 ''Proportional (Uniform)'' (new_SimulationState\<lparr>current_pop := [1000, 500, 200]\<rparr>)
   \<and> step 0 0 0 ''Proportional (Uniform)'' (new_SimulationState\<lparr>current_pop := [1000, 500, 200]\<rparr>) =
       step 0 0 0 ''Selective (Age-Specific)'' (new_SimulationState\<lparr>current_pop := [1000, 500, 200]\<rparr>)"
  using zero_harvest_modes_agree [of 1000 500 200 new_SimulationState]
  by (simp add: advance_vec harvest_survivors_vec progression_vec coefficients)

text \<open>
  The hypothesis is the invariant of the data model. Both programs only meet stage vectors
  that satisfy it when the parameters are in range: the initial population is non-negative
  and one year keeps a vector non-negative. So the three batch histories under zero harvest
  are equal without any hypothesis. A negative component, which only out-of-range rates can
  produce, is clamped to 0 by Constant Quota and kept by the other two modes.
\<close>

lemma zero_harvest_trajectory:
  "((\<lambda>q. advance q 0 0 0 ''Constant Quota'') ^^ t) INITIAL_POP =
     ((\<lambda>q. progression q) ^^ t) INITIAL_POP
   \<and> ((\<lambda>q. advance q 0 0 0 ''Proportional (Uniform)'') ^^ t) INITIAL_POP =
     ((\<lambda>q. progression q) ^^ t) INITIAL_POP
   \<and> ((\<lambda>q. advance q 0 0 0 ''Selective (Age-Specific)'') ^^ t) INITIAL_POP =
     ((\<lambda>q. progression q) ^^ t) INITIAL_POP
   \<and> (\<exists>a b c. ((\<lambda>q. progression q) ^^ t) INITIAL_POP = [a, b, c] \<and> 0 \<le> a \<and> 0 \<le> b \<and> 0 \<le> c)"
proof (induction t)
  case 0
  show ?case by (simp add: INITIAL_POP_def)
next
  case (Suc t)
  then obtain a b c where abc: "((\<lambda>q. progression q) ^^ t) INITIAL_POP = [a, b, c]"
      "0 \<le> a" "0 \<le> b" "0 \<le> c"
    by blast
  have "\<exists>a' b' c'. progression [a, b, c] = [a', b', c'] \<and> 0 \<le> a' \<and> 0 \<le> b' \<and> 0 \<le> c'"
    using progression_nonneg [OF abc(2-4)] by (simp add: progression_vec)
  with Suc abc show ?case
    by (simp add: advance_zero_harvest)
qed

lemma run_simulation_zero_harvest:
  "run_simulation 0 0 0 ''Constant Quota'' = run_simulation 0 0 0 ''Proportional (Uniform)''"
  "run_simulation 0 0 0 ''Proportional (Uniform)'' = run_simulation 0 0 0 ''Selective (Age-Specific)''"
  by (simp_all only: run_simulation_rows zero_harvest_trajectory)

lemma zero_harvest_negative_stage:
  "advance [- 1, 0, 0] 0 0 0 ''Constant Quota'' = [0, 0, 0]"
  "advance [- 1, 0, 0] 0 0 0 ''Proportional (Uniform)'' = [0, - 0.5, 0]"
  "advance [- 1, 0, 0] 0 0 0 ''Selective (Age-Specific)'' = [0, - 0.5, 0]"
  by (simp_all add: advance_vec harvest_survivors_vec progression_vec coefficients)

section \<open>A mode outside the three\<close>

lemma advance_unknown:
  "mode \<noteq> ''Constant Quota'' \<Longrightarrow> mode \<noteq> ''Proportional (Uniform)'' \<Longrightarrow>
   mode \<noteq> ''Selective (Age-Specific)'' \<Longrightarrow> advance q val_j val_s val_a mode = [0, 0, 0]"
  by (simp add: advance_def harvest_survivors_def progression_def np_zeros_def numeral_3_eq_3 numeral_2_eq_2)

lemma run_simulation_unknown:
  assumes "mode \<noteq> ''Constant Quota''" and "mode \<noteq> ''Proportional (Uniform)''"
    and "mode \<noteq> ''Selective (Age-Specific)''"
  shows "run_simulation val_j val_s val_a mode = INITIAL_POP # replicate YEARS [0, 0, 0]"
proof -
  let ?adv = "\<lambda>q. advance q val_j val_s val_a mode"
  have pow: "(?adv ^^ t) INITIAL_POP = (if t = 0 then INITIAL_POP else [0, 0, 0])" for t
    by (cases t) (simp_all add: advance_unknown [OF assms])
  have "map (\<lambda>t. (?adv ^^ t) INITIAL_POP) [1..<YEARS + 1] = map (\<lambda>t. [0, 0, 0]) [1..<YEARS + 1]"
    by (rule map_cong [OF refl]) (simp add: pow del: upt_Suc)
  then show ?thesis
    by (simp only: run_simulation_rows upt_from_0 list.map map_replicate_const length_upt)
      (simp add: pow)
qed

text \<open>
  Claim C3, as amended. Neither program has a branch that rejects a mode: both are total,
  with no \<^verbatim>\<open>raise\<close> and no \<^verbatim>\<open>else\<close>. For a mode string other than the three, the survivors
  stay the zeros of \<^verbatim>\<open>np.zeros(3)\<close>: \<^verbatim>\<open>run_simulation\<close> returns the initial population
  followed by \<^verbatim>\<open>YEARS\<close> rows of zeros, and \<^verbatim>\<open>step\<close> sets the current population to zeros and
  records a zero entry with the next time index.
\<close>

theorem unknown_mode_defaults:
  assumes "mode \<noteq> ''Constant Quota''" and "mode \<noteq> ''Proportional (Uniform)''"
    and "mode \<noteq> ''Selective (Age-Specific)''"
  shows "run_simulation val_j val_s val_a mode = INITIAL_POP # replicate YEARS [0, 0, 0]
       \<and> current_pop (step val_j val_s val_a mode self) = [0, 0, 0]
       \<and> history_j (step val_j val_s val_a mode self) = history_j self @ [0]
       \<and> history_s (step val_j val_s val_a mode self) = history_s self @ [0]
       \<and> history_a (step val_j val_s val_a mode self) = history_a self @ [0]
       \<and> time (step val_j val_s val_a mode self) = time self @ [year_counter self + 1]"
  by (simp add: run_simulation_unknown [OF assms] step_fields advance_unknown [OF assms])

theorem unknown_mode_defaults_witness:
  "''Logistic'' \<noteq> ''Constant Quota'' \<and> ''Logistic'' \<noteq> ''Proportional (Uniform)''
   \<and> ''Logistic'' \<noteq> ''Selective (Age-Specific)''
   \<and> run_simulation 0.5 0.5 0.5 ''Logistic'' = INITIAL_POP # replicate YEARS [0, 0, 0]
   \<and> current_pop (step 0.5 0.5 0.5 ''Logistic'' new_SimulationState) = [0, 0, 0]"
  using unknown_mode_defaults [of "''Logistic''" "0.5" "0.5" "0.5" new_SimulationState]
  by simp

text \<open>
  The claim as written (an unknown mode is rejected, not silently defaulted) fails: with
  the mode \<^verbatim>\<open>Logistic\<close> the batch projection returns a history and the driver records the
  year, both with every stage at zero.
\<close>

theorem unknown_mode_counterexample:
  "run_simulation 0.5 0.5 0.5 ''Logistic'' = [1000, 500, 200] # replicate 50 [0, 0, 0]
   \<and> recorded (step 0.5 0.5 0.5 ''Logistic'' new_SimulationState) =
       [(0, [1000, 500, 200]), (1, [0, 0, 0])]"
  by (simp add: run_simulation_unknown step_fields advance_unknown recorded_def
      new_SimulationState_def INITIAL_POP_def YEARS_def)

section \<open>Reset\<close>

text \<open>
  Claim C2, as amended. \<^verbatim>\<open>reset\<close>, from any state, sets the current vector to the initial
  population, the year counter to 0 and the history to the single entry (0, initial
  population), with the initial total; and it sets the run flag to \<^verbatim>\<open>False\<close> (paused).
\<close>

theorem reset_effect:
  "current_pop (reset self) = INITIAL_POP
   \<and> year_counter (reset self) = 0
   \<and> recorded (reset self) = [(0, INITIAL_POP)]
   \<and> history_j (reset self) = [INITIAL_POP ! 0]
   \<and> history_s (reset self) = [INITIAL_POP ! 1]
   \<and> history_a (reset self) = [INITIAL_POP ! 2]
   \<and> history_tot (reset self) = [np_sum INITIAL_POP]
   \<and> time (reset self) = [0]
   \<and> is_running (reset self) = False"
  by (simp add: reset_def recorded_def INITIAL_POP_def)

text \<open>
  The claim as written says that the flag is left as it was. After \<^verbatim>\<open>toggle_play\<close> on a new
  driver the flag is \<^verbatim>\<open>True\<close> (running), and \<^verbatim>\<open>reset\<close> changes it.
\<close>

theorem reset_flag_counterexample:
  "is_running (toggle_play new_SimulationState) = True
   \<and> is_running (reset (toggle_play new_SimulationState)) \<noteq> is_running (toggle_play new_SimulationState)"
  by (simp add: reset_def toggle_play_def new_SimulationState_def)

section \<open>The history only grows\<close>

lemma steps_append_only:
  "\<exists>js ss as ts ms.
      history_j (steps calls self) = history_j self @ js \<and> length js = length calls
    \<and> history_s (steps calls self) = history_s self @ ss \<and> length ss = length calls
    \<and> history_a (steps calls self) = history_a self @ as \<and> length as = length calls
    \<and> history_tot (steps calls self) = history_tot self @ ts \<and> length ts = length calls
    \<and> time (steps calls self) = time self @ ms \<and> length ms = length calls"
proof (induction calls self rule: steps.induct)
  case (1 self)
  show ?case by simp
next
  case (2 val_j val_s val_a mode calls self)
  then obtain js ss as ts ms where
    "history_j (steps calls (step val_j val_s val_a mode self)) =
       history_j (step val_j val_s val_a mode self) @ js" "length js = length calls"
    "history_s (steps calls (step val_j val_s val_a mode self)) =
       history_s (step val_j val_s val_a mode self) @ ss" "length ss = length calls"
    "history_a (steps calls (step val_j val_s val_a mode self)) =
       history_a (step val_j val_s val_a mode self) @ as" "length as = length calls"
    "history_tot (steps calls (step val_j val_s val_a mode self)) =
       history_tot (step val_j val_s val_a mode self) @ ts" "length ts = length calls"
    "time (steps calls (step val_j val_s val_a mode self)) =
       time (step val_j val_s val_a mode self) @ ms" "length ms = length calls"
    by blast
  then show ?case
    by (simp add: step_fields)
qed

lemma steps_year_counter:
  "year_counter (steps calls self) = year_counter self + int (length calls)"
  by (induction calls self rule: steps.induct) (simp_all add: step_year_counter)

text \<open>
  Claim C9. After \<open>n\<close> calls of \<^verbatim>\<open>step\<close> (with any arguments, each call its own) on a reset
  driver and no \<^verbatim>\<open>reset\<close> in between, the history has \<open>1 + n\<close> entries, in each of the five
  lists; and after any further \<^verbatim>\<open>step\<close> calls the first \<open>1 + n\<close> entries, time indices and
  stage values and totals, are what they were: entries are appended, none is changed or
  removed.
\<close>

theorem history_append_only:
  "length (recorded (steps calls (reset self))) = 1 + length calls
   \<and> length (history_j (steps calls (reset self))) = 1 + length calls
   \<and> length (history_s (steps calls (reset self))) = 1 + length calls
   \<and> length (history_a (steps calls (reset self))) = 1 + length calls
   \<and> length (history_tot (steps calls (reset self))) = 1 + length calls
   \<and> length (time (steps calls (reset self))) = 1 + length calls
   \<and> take (1 + length calls) (recorded (steps later (steps calls (reset self)))) =
       recorded (steps calls (reset self))
   \<and> take (1 + length calls) (history_j (steps later (steps calls (reset self)))) =
       history_j (steps calls (reset self))
   \<and> take (1 + length calls) (history_s (steps later (steps calls (reset self)))) =
       history_s (steps calls (reset self))
   \<and> take (1 + length calls) (history_a (steps later (steps calls (reset self)))) =
       history_a (steps calls (reset self))
   \<and> take (1 + length calls) (history_tot (steps later (steps calls (reset self)))) =
       history_tot (steps calls (reset self))
   \<and> take (1 + length calls) (time (steps later (steps calls (reset self)))) =
       time (steps calls (reset self))"
proof -
  let ?before = "steps calls (reset self)"
  let ?after = "steps later ?before"
  obtain js ss as ts ms where before:
    "history_j ?before = history_j (reset self) @ js" "length js = length calls"
    "history_s ?before = history_s (reset self) @ ss" "length ss = length calls"
    "history_a ?before = history_a (reset self) @ as" "length as = length calls"
    "history_tot ?before = history_tot (reset self) @ ts" "length ts = length calls"
    "time ?before = time (reset self) @ ms" "length ms = length calls"
    using steps_append_only [of calls "reset self"] by blast
  then have len:
    "length (history_j ?before) = 1 + length calls" "length (history_s ?before) = 1 + length calls"
    "length (history_a ?before) = 1 + length calls" "length (history_tot ?before) = 1 + length calls"
    "length (time ?before) = 1 + length calls"
    by (simp_all add: reset_def)
  obtain js' ss' as' ts' ms' where after:
    "history_j ?after = history_j ?before @ js'"
    "history_s ?after = history_s ?before @ ss'"
    "history_a ?after = history_a ?before @ as'"
    "history_tot ?after = history_tot ?before @ ts'"
    "time ?after = time ?before @ ms'"
    using steps_append_only [of later ?before] by blast
  have kept:
    "take (1 + length calls) (history_j ?after) = history_j ?before"
    "take (1 + length calls) (history_s ?after) = history_s ?before"
    "take (1 + length calls) (history_a ?after) = history_a ?before"
    "take (1 + length calls) (history_tot ?after) = history_tot ?before"
    "take (1 + length calls) (time ?after) = time ?before"
    by (simp_all add: after len)
  have "take (1 + length calls) (recorded ?after) = recorded ?before"
    by (simp only: recorded_def take_zip take_map kept)
  moreover have "length (recorded ?before) = 1 + length calls"
    by (simp add: recorded_def len)
  ultimately show ?thesis
    using len kept by simp
qed

section \<open>The total is the sum of the stages\<close>

lemma totals_agree_new: "totals_agree new_SimulationState"
  by (simp add: totals_agree_def new_SimulationState_def INITIAL_POP_def np_sum_def)

lemma np_sum_advance:
  "np_sum (advance q val_j val_s val_a mode) =
     advance q val_j val_s val_a mode ! 0 + advance q val_j val_s val_a mode ! 1
       + advance q val_j val_s val_a mode ! 2"
  by (subst advance_rows) (simp add: np_sum_def)

lemma totals_agree_step:
  assumes "totals_agree self" and "time self \<noteq> []"
  shows "totals_agree (step val_j val_s val_a mode self)"
proof -
  let ?n = "length (time self)"
  let ?v = "advance (current_pop self) val_j val_s val_a mode"
  from assms have len: "length (history_j self) = ?n" "length (history_s self) = ?n"
      "length (history_a self) = ?n"
    and tot: "history_tot self =
       map (\<lambda>t. history_j self ! t + history_s self ! t + history_a self ! t) [0..<?n]"
    and hd: "history_tot self ! 0 = np_sum INITIAL_POP"
    unfolding totals_agree_def by blast+
  from assms(2) have pos: "0 < ?n" by simp
  have old: "map (\<lambda>t. (history_j self @ [?v ! 0]) ! t + (history_s self @ [?v ! 1]) ! t
                 + (history_a self @ [?v ! 2]) ! t) [0..<?n] =
             map (\<lambda>t. history_j self ! t + history_s self ! t + history_a self ! t) [0..<?n]"
    by (rule map_cong [OF refl]) (simp add: nth_append len)
  have len_tot: "length (history_tot self) = ?n"
    by (subst tot) simp
  have "history_tot self @ [np_sum ?v] =
      map (\<lambda>t. (history_j self @ [?v ! 0]) ! t + (history_s self @ [?v ! 1]) ! t
                 + (history_a self @ [?v ! 2]) ! t) [0..<Suc ?n]"
    by (simp only: upt_Suc_append [OF le0] map_append old tot [symmetric])
      (simp add: nth_append len np_sum_advance)
  moreover have "(history_tot self @ [np_sum ?v]) ! 0 = np_sum INITIAL_POP"
    using pos len_tot hd by (simp add: nth_append)
  ultimately show ?thesis
    by (simp add: totals_agree_def step_fields len)
qed

lemma time_nonempty_run_call: "time self \<noteq> [] \<Longrightarrow> time (run_call c self) \<noteq> []"
  by (cases c) (simp_all add: step_time reset_def toggle_play_def)

lemma totals_agree_toggle_play: "totals_agree (toggle_play self) = totals_agree self"
  by (simp add: totals_agree_def toggle_play_def)

lemma totals_agree_run_call:
  "totals_agree self \<Longrightarrow> time self \<noteq> [] \<Longrightarrow> totals_agree (run_call c self)"
  by (cases c) (simp_all add: totals_agree_step reset_new totals_agree_new totals_agree_toggle_play)

lemma totals_agree_run_calls:
  "totals_agree self \<Longrightarrow> time self \<noteq> [] \<Longrightarrow> totals_agree (run_calls cs self)"
  by (induction cs arbitrary: self) (simp_all add: totals_agree_run_call time_nonempty_run_call)

lemma funpow_advance_rows:
  "((\<lambda>q. advance q val_j val_s val_a mode) ^^ t) INITIAL_POP =
     [((\<lambda>q. advance q val_j val_s val_a mode) ^^ t) INITIAL_POP ! 0,
      ((\<lambda>q. advance q val_j val_s val_a mode) ^^ t) INITIAL_POP ! 1,
      ((\<lambda>q. advance q val_j val_s val_a mode) ^^ t) INITIAL_POP ! 2]"
proof (cases t)
  case 0
  then show ?thesis by (simp add: INITIAL_POP_def)
next
  case (Suc k)
  then show ?thesis
    using advance_rows [of "((\<lambda>q. advance q val_j val_s val_a mode) ^^ k) INITIAL_POP"
        val_j val_s val_a mode] by simp
qed

lemma np_sum_funpow:
  "np_sum (((\<lambda>q. advance q val_j val_s val_a mode) ^^ t) INITIAL_POP) =
     ((\<lambda>q. advance q val_j val_s val_a mode) ^^ t) INITIAL_POP ! 0
   + ((\<lambda>q. advance q val_j val_s val_a mode) ^^ t) INITIAL_POP ! 1
   + ((\<lambda>q. advance q val_j val_s val_a mode) ^^ t) INITIAL_POP ! 2"
  by (subst funpow_advance_rows) (simp add: np_sum_def)

text \<open>
  Claim C10. After any sequence of \<^verbatim>\<open>step\<close>, \<^verbatim>\<open>reset\<close> and \<^verbatim>\<open>toggle_play\<close> calls on a new
  driver, with any arguments and modes, the total recorded at each time index is the sum of
  the three stage values recorded at that index, the lists have one entry per recorded
  time, and the total at index 0 is the sum of the initial population, 1700. The total line
  of the batch history is, row by row, the sum of the row's three stages, and starts with
  the same 1700.
\<close>

theorem total_is_sum_of_stages:
  "history_tot (run_calls cs new_SimulationState) =
     map (\<lambda>t. history_j (run_calls cs new_SimulationState) ! t
              + history_s (run_calls cs new_SimulationState) ! t
              + history_a (run_calls cs new_SimulationState) ! t)
       [0..<length (time (run_calls cs new_SimulationState))]
   \<and> length (history_j (run_calls cs new_SimulationState)) = length (time (run_calls cs new_SimulationState))
   \<and> length (history_s (run_calls cs new_SimulationState)) = length (time (run_calls cs new_SimulationState))
   \<and> length (history_a (run_calls cs new_SimulationState)) = length (time (run_calls cs new_SimulationState))
   \<and> history_tot (run_calls cs new_SimulationState) ! 0 = np_sum INITIAL_POP
   \<and> total_line (run_simulation val_j val_s val_a mode) =
       map (\<lambda>row. row ! 0 + row ! 1 + row ! 2) (run_simulation val_j val_s val_a mode)
   \<and> total_line (run_simulation val_j val_s val_a mode) ! 0 = np_sum INITIAL_POP
   \<and> np_sum INITIAL_POP = 1000 + 500 + 200"
proof -
  have "time new_SimulationState \<noteq> []"
    by (simp add: new_SimulationState_def)
  then have "totals_agree (run_calls cs new_SimulationState)"
    by (rule totals_agree_run_calls [OF totals_agree_new])
  moreover have "total_line (run_simulation val_j val_s val_a mode) =
       map (\<lambda>row. row ! 0 + row ! 1 + row ! 2) (run_simulation val_j val_s val_a mode)"
    by (simp add: total_line_def run_simulation_rows np_sum_funpow del: upt_Suc)
  moreover have "total_line (run_simulation val_j val_s val_a mode) ! 0 = np_sum INITIAL_POP"
    by (simp add: total_line_def run_simulation_rows upt_from_0 del: upt_Suc)
  moreover have "np_sum INITIAL_POP = 1000 + 500 + 200"
    by (simp add: INITIAL_POP_def np_sum_def)
  ultimately show ?thesis
    unfolding totals_agree_def by blast
qed

end

